theory Spec2Isabelle
  imports Complex_Main
begin

section \<open>The Gantt row of the DAG details view (Row.tsx)\<close>

text \<open>
  A shallow embedding of the component \<open>Row\<close> of
  \<^verbatim>\<open>airflow/www/static/js/dag/details/gantt/Row.tsx\<close>. The component is a pure
  function of its props and of what its hooks return, so the model is a function from
  these to the element tree it renders.
\<close>

subsection \<open>JavaScript values\<close>

text \<open>
  A value of type \<^verbatim>\<open>T | null | undefined\<close>. The two empty values are kept apart:
  \<^verbatim>\<open>!==\<close> tells them apart, and \<^verbatim>\<open>instance?.startDate\<close> is \<^verbatim>\<open>undefined\<close>
  when there is no instance.
\<close>

datatype 'a nullable = Undefined | Null | Val 'a

text \<open>
  A JavaScript number. The finite values are exact reals: the rounding of the double
  arithmetic and the sign of zero are not modelled. The three other values are what a
  division by zero and arithmetic on its results produce.
\<close>

datatype jsnum = Num real | PosInf | NegInf | NaN

text \<open>The sign of a number that is not \<open>NaN\<close>: 1, 0 or -1.\<close>

fun jsign :: "jsnum \<Rightarrow> int" where
  "jsign (Num x) = (if 0 < x then 1 else if x < 0 then -1 else 0)"
| "jsign PosInf = 1"
| "jsign NegInf = -1"
| "jsign NaN = 0"

definition jinf :: "int \<Rightarrow> jsnum" where
  "jinf s = (if 0 < s then PosInf else if s < 0 then NegInf else NaN)"

text \<open>\<^verbatim>\<open>a / b\<close>: a finite quotient, or the IEEE result when the divisor is zero or an
  operand is not finite (zero is read as positive zero).\<close>

fun jdiv :: "jsnum \<Rightarrow> jsnum \<Rightarrow> jsnum" where
  "jdiv NaN b = NaN"
| "jdiv a NaN = NaN"
| "jdiv (Num x) (Num y) = (if y = 0 then jinf (jsign (Num x)) else Num (x / y))"
| "jdiv (Num x) PosInf = Num 0"
| "jdiv (Num x) NegInf = Num 0"
| "jdiv PosInf (Num y) = (if y < 0 then NegInf else PosInf)"
| "jdiv NegInf (Num y) = (if y < 0 then PosInf else NegInf)"
| "jdiv PosInf b = NaN"
| "jdiv NegInf b = NaN"

text \<open>\<^verbatim>\<open>a * b\<close>: zero times an infinity is \<open>NaN\<close>.\<close>

fun jmul :: "jsnum \<Rightarrow> jsnum \<Rightarrow> jsnum" where
  "jmul NaN b = NaN"
| "jmul a NaN = NaN"
| "jmul (Num x) (Num y) = Num (x * y)"
| "jmul a b = jinf (jsign a * jsign b)"

text \<open>\<^verbatim>\<open>a + b\<close>: opposite infinities add to \<open>NaN\<close>.\<close>

fun jadd :: "jsnum \<Rightarrow> jsnum \<Rightarrow> jsnum" where
  "jadd NaN b = NaN"
| "jadd a NaN = NaN"
| "jadd (Num x) (Num y) = Num (x + y)"
| "jadd (Num x) b = b"
| "jadd a (Num y) = a"
| "jadd PosInf PosInf = PosInf"
| "jadd NegInf NegInf = NegInf"
| "jadd PosInf NegInf = NaN"
| "jadd NegInf PosInf = NaN"

text \<open>\<^verbatim>\<open>a < b\<close> on numbers: false as soon as an operand is \<open>NaN\<close>.\<close>

fun jlt :: "jsnum \<Rightarrow> jsnum \<Rightarrow> bool" where
  "jlt NaN b = False"
| "jlt a NaN = False"
| "jlt (Num x) (Num y) = (x < y)"
| "jlt NegInf NegInf = False"
| "jlt NegInf b = True"
| "jlt a PosInf = (a \<noteq> PosInf)"
| "jlt a NegInf = False"
| "jlt PosInf b = False"

text \<open>\<^verbatim>\<open>a <= b\<close> on numbers.\<close>

definition jle :: "jsnum \<Rightarrow> jsnum \<Rightarrow> bool" where
  "jle a b = (a \<noteq> NaN \<and> b \<noteq> NaN \<and> \<not> jlt b a)"

definition finite_num :: "jsnum \<Rightarrow> bool" where
  "finite_num a = (case a of Num x \<Rightarrow> True | _ \<Rightarrow> False)"

text \<open>\<^verbatim>\<open>a < b\<close> on strings: by code units, a proper prefix first.\<close>

fun js_string_lt :: "string \<Rightarrow> string \<Rightarrow> bool" where
  "js_string_lt [] [] = False"
| "js_string_lt [] (y # ys) = True"
| "js_string_lt (x # xs) [] = False"
| "js_string_lt (x # xs) (y # ys) =
     (if (of_char x :: nat) < of_char y then True
      else if (of_char y :: nat) < of_char x then False
      else js_string_lt xs ys)"

text \<open>Truthiness of a nullable string: present and not empty.\<close>

definition truthy :: "string nullable \<Rightarrow> bool" where
  "truthy v = (case v of Val s \<Rightarrow> s \<noteq> [] | _ \<Rightarrow> False)"

text \<open>\<^verbatim>\<open>a || b\<close> on nullable strings.\<close>

definition or_else :: "string nullable \<Rightarrow> string nullable \<Rightarrow> string nullable" where
  "or_else a b = (if truthy a then a else b)"

text \<open>\<^verbatim>\<open>a < b\<close> where both operands are known to be strings.\<close>

definition string_lt :: "string nullable \<Rightarrow> string nullable \<Rightarrow> bool" where
  "string_lt a b = (case (a, b) of (Val s, Val t) \<Rightarrow> js_string_lt s t | _ \<Rightarrow> False)"

subsection \<open>The data of \<^verbatim>\<open>src/types\<close>\<close>

text \<open>Timestamps are the date strings of the API.\<close>

record taskInstance =
  runId :: string
  taskId :: string
  state :: "string option"
  startDate :: "string nullable"
  endDate :: "string nullable"
  queuedDttm :: "string nullable"
  tryNumber :: "int option"

record taskFail =
  tf_taskId :: "string option"
  tf_startDate :: "string nullable"
  tf_endDate :: "string nullable"

datatype task = Task (task_id: "string option") (children: "task list option")
  (instances: "taskInstance list")

subsection \<open>What the component consumes\<close>

text \<open>
  The hooks and helpers the component imports: the selection of \<^verbatim>\<open>useSelection\<close>,
  \<^verbatim>\<open>getDuration\<close> of \<^verbatim>\<open>src/datetime_utils\<close>, the comparison
  \<^verbatim>\<open>moment(a).isAfter(b)\<close>, and the answer of the backend to the task-fails query
  (\<open>None\<close> while it has none). Their code is not part of this file, so they are
  parameters of the model.
\<close>

record env =
  selected_runId :: "string option"
  selected_taskId :: "string option"
  getDuration :: "string nullable \<Rightarrow> string nullable \<Rightarrow> jsnum"
  isAfter :: "string nullable \<Rightarrow> string nullable \<Rightarrow> bool"
  taskFailsApi :: "string option \<Rightarrow> string option \<Rightarrow> taskFail list option"

text \<open>
  Modelled from the spec: the failure-history fetch \<^verbatim>\<open>useTaskFails\<close> of \<^verbatim>\<open>src/api\<close>,
  whose code is not part of this file. Input \<^verbatim>\<open>{ taskId, runId, enabled }\<close>; output the
  list of TaskFail or the "not yet loaded" value; the backend is not asked when
  \<^verbatim>\<open>enabled\<close> is false.
\<close>

definition useTaskFails :: "env \<Rightarrow> string option \<Rightarrow> string option \<Rightarrow> bool \<Rightarrow> taskFail list option" where
  "useTaskFails e tid rid enabled = (if enabled then taskFailsApi e tid rid else None)"

text \<open>
  Modelled from the spec: \<^verbatim>\<open>getDuration\<close> as section 4.1 describes it, \<open>b - a\<close> in
  milliseconds if both are defined, else 0. \<open>ms\<close> reads a date string as milliseconds.
\<close>

definition getDuration_spec :: "(string \<Rightarrow> int) \<Rightarrow> string nullable \<Rightarrow> string nullable \<Rightarrow> jsnum" where
  "getDuration_spec ms a b =
     (case (a, b) of (Val s, Val t) \<Rightarrow> Num (real_of_int (ms t - ms s)) | _ \<Rightarrow> Num 0)"

subsection \<open>What the component renders\<close>

text \<open>The outer \<^verbatim>\<open>Box\<close> of the row (lines 96-103). Widths are the numbers the source
  writes before \<^verbatim>\<open>px\<close>.\<close>

record box =
  borderBottomColor :: string
  bg :: string
  box_width :: jsnum

text \<open>
  The instance bar (lines 105-145): the \<^verbatim>\<open>Tooltip\<close> with its \<^verbatim>\<open>GanttTooltip\<close> label,
  the \<^verbatim>\<open>Flex\<close> with its width, its left margin and the selection its click sends, the
  queued \<^verbatim>\<open>SimpleStatus\<close> (its width, when it is rendered) and the \<^verbatim>\<open>SimpleStatus\<close> of
  the instance.
\<close>

record flex =
  tooltip_task :: task
  tooltip_instance :: taskInstance
  flex_width :: jsnum
  left :: jsnum
  onClick :: "string \<times> string"
  queued_segment :: "jsnum option"
  status_state :: "string option"
  status_width :: jsnum
  borderLeftRadius :: "nat option"

text \<open>The props of one \<^verbatim>\<open>TaskFail\<close> marker (lines 156-162).\<close>

record taskFailProps =
  p_taskFail :: taskFail
  p_ganttStartDate :: "string nullable"
  p_ganttWidth :: jsnum
  p_runDuration :: jsnum

text \<open>The \<^verbatim>\<open>div\<close> a row returns: its box, the bar inside it when there is one, the
  failure markers inside it, and the rows of the children after it.\<close>

datatype rendered = Rendered (frame: box) (bar: "flex option") (fails: "taskFailProps list")
  (childRows: "rendered list")

subsection \<open>The component\<close>

text \<open>\<^verbatim>\<open>ganttWidth = 500\<close> in the parameter list (line 43).\<close>

definition ganttWidth_default :: "jsnum option \<Rightarrow> jsnum" where
  "ganttWidth_default w = (case w of None \<Rightarrow> Num 500 | Some x \<Rightarrow> x)"

text \<open>Line 55.\<close>

definition runDuration :: "env \<Rightarrow> string nullable \<Rightarrow> string nullable \<Rightarrow> jsnum" where
  "runDuration e ganttStartDate ganttEndDate = getDuration e ganttStartDate ganttEndDate"

text \<open>Line 57: \<^verbatim>\<open>task.instances.find((ti) => ti.runId === runId)\<close>.\<close>

definition find_instance :: "env \<Rightarrow> task \<Rightarrow> taskInstance option" where
  "find_instance e t = find (\<lambda>ti. selected_runId e = Some (runId ti)) (instances t)"

text \<open>\<^verbatim>\<open>instance?.f\<close> for a nullable field \<open>f\<close>.\<close>

definition chain :: "taskInstance option \<Rightarrow> (taskInstance \<Rightarrow> 'a nullable) \<Rightarrow> 'a nullable" where
  "chain inst f = (case inst of None \<Rightarrow> Undefined | Some i \<Rightarrow> f i)"

text \<open>Line 58: \<^verbatim>\<open>taskId === instance?.taskId\<close>.\<close>

definition isSelected :: "env \<Rightarrow> taskInstance option \<Rightarrow> bool" where
  "isSelected e inst = (case inst of None \<Rightarrow> False | Some i \<Rightarrow> selected_taskId e = Some (taskId i))"

text \<open>Lines 59-63.\<close>

definition hasValidQueuedDttm :: "taskInstance option \<Rightarrow> bool" where
  "hasValidQueuedDttm inst =
     (truthy (chain inst queuedDttm) \<and>
      (if truthy (chain inst startDate) \<and> truthy (chain inst queuedDttm)
       then string_lt (chain inst queuedDttm) (chain inst startDate)
       else True))"

text \<open>\<^verbatim>\<open>task.id || ""\<close> and \<^verbatim>\<open>x || undefined\<close>.\<close>

definition or_empty :: "string option \<Rightarrow> string" where
  "or_empty v = (case v of None \<Rightarrow> [] | Some s \<Rightarrow> s)"

definition or_undefined :: "string option \<Rightarrow> string option" where
  "or_undefined v = (case v of None \<Rightarrow> None | Some s \<Rightarrow> if s = [] then None else Some s)"

text \<open>Line 64.\<close>

definition isOpen :: "string list \<Rightarrow> task \<Rightarrow> bool" where
  "isOpen openGroupIds t = (or_empty (task_id t) \<in> set openGroupIds)"

text \<open>Line 69, the \<^verbatim>\<open>enabled\<close> of the query:
  \<^verbatim>\<open>!!(instance?.tryNumber && instance?.tryNumber > 1) && !!task.id\<close>.\<close>

definition enabled :: "taskInstance option \<Rightarrow> task \<Rightarrow> bool" where
  "enabled inst t =
     ((case inst of None \<Rightarrow> False
       | Some i \<Rightarrow> (case tryNumber i of None \<Rightarrow> False | Some n \<Rightarrow> n \<noteq> 0 \<and> 1 < n)) \<and>
      (case task_id t of None \<Rightarrow> False | Some s \<Rightarrow> s \<noteq> []))"

text \<open>Lines 66-70.\<close>

definition taskFails :: "env \<Rightarrow> taskInstance option \<Rightarrow> task \<Rightarrow> taskFail list option" where
  "taskFails e inst t =
     useTaskFails e (or_undefined (task_id t)) (or_undefined (selected_runId e)) (enabled inst t)"

text \<open>Lines 73-79.\<close>

definition taskDuration :: "env \<Rightarrow> taskInstance option \<Rightarrow> jsnum" where
  "taskDuration e inst = getDuration e (chain inst startDate) (chain inst endDate)"

definition queuedDuration :: "env \<Rightarrow> taskInstance option \<Rightarrow> jsnum" where
  "queuedDuration e inst =
     (if hasValidQueuedDttm inst
      then getDuration e (chain inst queuedDttm) (chain inst startDate)
      else Num 0)"

definition taskStartOffset :: "env \<Rightarrow> string nullable \<Rightarrow> taskInstance option \<Rightarrow> jsnum" where
  "taskStartOffset e ganttStartDate inst =
     (if hasValidQueuedDttm inst
      then getDuration e ganttStartDate (or_else (chain inst queuedDttm) (chain inst startDate))
      else getDuration e ganttStartDate (chain inst startDate))"

text \<open>Lines 82-84.\<close>

definition taskDurationPercent :: "env \<Rightarrow> string nullable \<Rightarrow> string nullable \<Rightarrow> taskInstance option \<Rightarrow> jsnum" where
  "taskDurationPercent e gs ge inst = jdiv (taskDuration e inst) (runDuration e gs ge)"

definition taskStartOffsetPercent :: "env \<Rightarrow> string nullable \<Rightarrow> string nullable \<Rightarrow> taskInstance option \<Rightarrow> jsnum" where
  "taskStartOffsetPercent e gs ge inst = jdiv (taskStartOffset e gs inst) (runDuration e gs ge)"

definition queuedDurationPercent :: "env \<Rightarrow> string nullable \<Rightarrow> string nullable \<Rightarrow> taskInstance option \<Rightarrow> jsnum" where
  "queuedDurationPercent e gs ge inst = jdiv (queuedDuration e inst) (runDuration e gs ge)"

text \<open>Lines 88-92. \<open>gw\<close> is \<^verbatim>\<open>ganttWidth\<close> after its default.\<close>

definition width :: "env \<Rightarrow> jsnum \<Rightarrow> string nullable \<Rightarrow> string nullable \<Rightarrow> taskInstance option \<Rightarrow> jsnum" where
  "width e gw gs ge inst =
     (let w = jmul gw (taskDurationPercent e gs ge inst)
      in if jlt w (Num 5) then Num 5 else w)"

definition queuedWidth :: "env \<Rightarrow> jsnum \<Rightarrow> string nullable \<Rightarrow> string nullable \<Rightarrow> taskInstance option \<Rightarrow> jsnum" where
  "queuedWidth e gw gs ge inst =
     (let q = (if hasValidQueuedDttm inst then jmul gw (queuedDurationPercent e gs ge inst) else Num 0)
      in if hasValidQueuedDttm inst \<and> jlt q (Num 5) then Num 5 else q)"

definition offsetMargin :: "env \<Rightarrow> jsnum \<Rightarrow> string nullable \<Rightarrow> string nullable \<Rightarrow> taskInstance option \<Rightarrow> jsnum" where
  "offsetMargin e gw gs ge inst = jmul (taskStartOffsetPercent e gs ge inst) gw"

text \<open>Lines 96-103.\<close>

definition Row_box :: "env \<Rightarrow> jsnum \<Rightarrow> string list \<Rightarrow> task \<Rightarrow> box" where
  "Row_box e gw openGroupIds t =
     \<lparr> borderBottomColor =
         (if children t \<noteq> None \<and> isOpen openGroupIds t then ''gray.400'' else ''gray.200''),
       bg = (if isSelected e (find_instance e t) then ''blue.100'' else ''inherit''),
       box_width = gw \<rparr>"

text \<open>Lines 104-146: \<^verbatim>\<open>instance && (...)\<close>.\<close>

definition Row_bar :: "env \<Rightarrow> jsnum \<Rightarrow> task \<Rightarrow> string nullable \<Rightarrow> string nullable \<Rightarrow> flex option" where
  "Row_bar e gw t gs ge =
     (case find_instance e t of
        None \<Rightarrow> None
      | Some i \<Rightarrow>
          Some \<lparr> tooltip_task = t,
                 tooltip_instance = i,
                 flex_width = jadd (width e gw gs ge (Some i)) (queuedWidth e gw gs ge (Some i)),
                 left = offsetMargin e gw gs ge (Some i),
                 onClick = (runId i, taskId i),
                 queued_segment =
                   (if state i \<noteq> Some ''queued'' \<and> hasValidQueuedDttm (Some i)
                    then Some (queuedWidth e gw gs ge (Some i)) else None),
                 status_state = state i,
                 status_width = width e gw gs ge (Some i),
                 borderLeftRadius =
                   (if state i \<noteq> Some ''queued'' \<and> hasValidQueuedDttm (Some i)
                    then Some 0 else None) \<rparr>)"

text \<open>Lines 148-163. \<^verbatim>\<open>taskFails || []\<close> is the empty list while there is no data. The
  \<^verbatim>\<open>key\<close> of a marker is not part of what is rendered.\<close>

definition keep_fail :: "env \<Rightarrow> taskInstance option \<Rightarrow> string nullable \<Rightarrow> taskFail \<Rightarrow> bool" where
  "keep_fail e inst gs tf =
     (tf_startDate tf \<noteq> chain inst startDate \<and> isAfter e (tf_startDate tf) gs)"

definition Row_fails :: "env \<Rightarrow> jsnum \<Rightarrow> task \<Rightarrow> string nullable \<Rightarrow> string nullable \<Rightarrow> taskFailProps list" where
  "Row_fails e gw t gs ge =
     map (\<lambda>tf. \<lparr> p_taskFail = tf, p_ganttStartDate = gs, p_ganttWidth = gw,
                  p_runDuration = runDuration e gs ge \<rparr>)
       (filter (keep_fail e (find_instance e t) gs)
          (case taskFails e (find_instance e t) t of None \<Rightarrow> [] | Some tfs \<Rightarrow> tfs))"

text \<open>The component (lines 42-179). The rows of the children are those of lines 165-176:
  \<^verbatim>\<open>isOpen && !!task.children && task.children.map(...)\<close>, each child with the parent's
  \<^verbatim>\<open>ganttWidth\<close>, \<^verbatim>\<open>openGroupIds\<close>, \<^verbatim>\<open>ganttStartDate\<close> and \<^verbatim>\<open>ganttEndDate\<close>.\<close>

fun Row :: "env \<Rightarrow> jsnum option \<Rightarrow> string list \<Rightarrow> task \<Rightarrow> string nullable \<Rightarrow> string nullable \<Rightarrow> rendered" where
  "Row e ganttWidth openGroupIds (Task tid ch insts) ganttStartDate ganttEndDate =
     Rendered
       (Row_box e (ganttWidth_default ganttWidth) openGroupIds (Task tid ch insts))
       (Row_bar e (ganttWidth_default ganttWidth) (Task tid ch insts) ganttStartDate ganttEndDate)
       (Row_fails e (ganttWidth_default ganttWidth) (Task tid ch insts) ganttStartDate ganttEndDate)
       (if isOpen openGroupIds (Task tid ch insts)
        then (case ch of
                None \<Rightarrow> []
              | Some cs \<Rightarrow>
                  map (\<lambda>c. Row e (Some (ganttWidth_default ganttWidth)) openGroupIds c
                          ganttStartDate ganttEndDate) cs)
        else [])"

subsection \<open>Example data\<close>

text \<open>The window of the spec's examples: \<open>T0\<close>, ten, thirty and a hundred seconds later.
  \<open>ex_ms\<close> reads the four date strings as milliseconds after \<open>T0\<close>.\<close>

definition ex_T0 :: string where "ex_T0 = ''2023-01-01T00:00:00+00:00''"
definition ex_T10 :: string where "ex_T10 = ''2023-01-01T00:00:10+00:00''"
definition ex_T30 :: string where "ex_T30 = ''2023-01-01T00:00:30+00:00''"
definition ex_T100 :: string where "ex_T100 = ''2023-01-01T00:01:40+00:00''"

definition ex_ms :: "string \<Rightarrow> int" where
  "ex_ms s = (if s = ex_T10 then 10000 else if s = ex_T30 then 30000
              else if s = ex_T100 then 100000 else 0)"

text \<open>The run \<open>run_1\<close> is selected; durations are those of \<open>getDuration_spec\<close>; the backend
  answers the task-fails query with \<open>tfs\<close>.\<close>

definition ex_env :: "taskFail list option \<Rightarrow> env" where
  "ex_env tfs =
     \<lparr> selected_runId = Some ''run_1'', selected_taskId = None,
       getDuration = getDuration_spec ex_ms,
       isAfter = (\<lambda>a b. case (a, b) of (Val s, Val t) \<Rightarrow> ex_ms t < ex_ms s | _ \<Rightarrow> False),
       taskFailsApi = (\<lambda>tid rid. tfs) \<rparr>"

text \<open>An instance of task \<open>task_a\<close> in run \<open>rid\<close>, and the task that has only this instance.\<close>

definition ex_ti :: "string \<Rightarrow> string option \<Rightarrow> string nullable \<Rightarrow> string nullable \<Rightarrow> string nullable \<Rightarrow> int \<Rightarrow> taskInstance" where
  "ex_ti rid st queued start end' n =
     \<lparr> runId = rid, taskId = ''task_a'', state = st, startDate = start, endDate = end',
       queuedDttm = queued, tryNumber = Some n \<rparr>"

definition ex_leaf :: "taskInstance \<Rightarrow> task" where
  "ex_leaf i = Task (Some ''task_a'') None [i]"

text \<open>A group with two children, and the same group without an identifier.\<close>

definition ex_child1 :: task where
  "ex_child1 = Task (Some ''group.first'') None []"

definition ex_child2 :: task where
  "ex_child2 = Task (Some ''group.second'') None []"

definition ex_group :: "string option \<Rightarrow> task" where
  "ex_group tid = Task tid (Some [ex_child1, ex_child2]) []"

definition ex_fail :: "string nullable \<Rightarrow> taskFail" where
  "ex_fail start = \<lparr> tf_taskId = Some ''task_a'', tf_startDate = start, tf_endDate = Null \<rparr>"

section \<open>Properties\<close>

subsection \<open>Reading the rendered row\<close>

lemmas ex_defs = ex_T0_def ex_T10_def ex_T30_def ex_T100_def ex_ms_def ex_env_def ex_ti_def
  ex_leaf_def ex_child1_def ex_child2_def ex_group_def ex_fail_def getDuration_spec_def

lemmas geometry_defs = width_def queuedWidth_def offsetMargin_def taskDurationPercent_def
  taskStartOffsetPercent_def queuedDurationPercent_def taskDuration_def queuedDuration_def
  taskStartOffset_def runDuration_def hasValidQueuedDttm_def chain_def truthy_def or_else_def
  string_lt_def ganttWidth_default_def

lemma bar_Row: "bar (Row e gW ogi t gs ge) = Row_bar e (ganttWidth_default gW) t gs ge"
  by (cases t) simp

lemma fails_Row: "fails (Row e gW ogi t gs ge) = Row_fails e (ganttWidth_default gW) t gs ge"
  by (cases t) simp

lemma frame_Row: "frame (Row e gW ogi t gs ge) = Row_box e (ganttWidth_default gW) ogi t"
  by (cases t) simp

lemma childRows_Row:
  "childRows (Row e gW ogi t gs ge) =
     (if isOpen ogi t
      then (case children t of
              None \<Rightarrow> []
            | Some cs \<Rightarrow> map (\<lambda>c. Row e (Some (ganttWidth_default gW)) ogi c gs ge) cs)
      else [])"
  by (cases t) simp

lemma js_string_lt_irrefl: "\<not> js_string_lt s s"
  by (induction s) simp_all

lemma find_instance_None:
  "(find_instance e t = None) = (\<forall>ti \<in> set (instances t). selected_runId e \<noteq> Some (runId ti))"
  by (auto simp add: find_instance_def find_None_iff)

subsection \<open>Arithmetic on the numbers of the component\<close>

lemma jdiv_zero_not_finite: "\<not> finite_num (jdiv a (Num 0))"
  by (cases a) (simp_all add: finite_num_def jinf_def)

lemma jmul_not_finite_left: "\<not> finite_num a \<Longrightarrow> \<not> finite_num (jmul a b)"
  by (cases a; cases b) (simp_all add: finite_num_def jinf_def)

lemma jmul_not_finite_right: "\<not> finite_num b \<Longrightarrow> \<not> finite_num (jmul a b)"
  by (cases a; cases b) (simp_all add: finite_num_def jinf_def)

lemma floor5_cases:
  "\<not> finite_num w \<Longrightarrow> (if jlt w (Num 5) then Num 5 else w) = NaN \<or>
     (if jlt w (Num 5) then Num 5 else w) = PosInf \<or> (if jlt w (Num 5) then Num 5 else w) = Num 5"
  by (cases w) (simp_all add: finite_num_def)

lemma floor5_at_least: "w \<noteq> NaN \<Longrightarrow> jle (Num 5) (if jlt w (Num 5) then Num 5 else w)"
  by (cases w) (simp_all add: jle_def)

subsection \<open>Proportional geometry\<close>

text \<open>
  C1. For a resolved instance, a positive \<open>runDuration\<close> \<open>r\<close>, a task duration \<open>d\<close>, a
  start offset \<open>off\<close> and a width \<open>W\<close>, the main bar is \<open>W * (d / r)\<close> pixels wide, or 5
  where that is less than 5, and its left margin is \<open>W * (off / r)\<close> pixels. In the
  spec's example (window of 100 s, width 500, instance from second 10 to second 30, not
  queued, durations as \<open>getDuration_spec\<close> gives them) the bar is 100 pixels wide at
  50 pixels from the left.
\<close>

theorem Row_geometry_proportional:
  "(find_instance e t = Some i \<and> runDuration e gs ge = Num r \<and> 0 < r \<and>
    taskDuration e (Some i) = Num d \<and> taskStartOffset e gs (Some i) = Num off \<and>
    ganttWidth_default gW = Num W
    \<longrightarrow> map_option status_width (bar (Row e gW ogi t gs ge))
          = Some (Num (if W * (d / r) < 5 then 5 else W * (d / r))) \<and>
        map_option left (bar (Row e gW ogi t gs ge)) = Some (Num (W * (off / r))))
   \<and> map_option status_width
        (bar (Row (ex_env None) (Some (Num 500)) []
               (ex_leaf (ex_ti ''run_1'' (Some ''success'') Undefined (Val ex_T10) (Val ex_T30) 1))
               (Val ex_T0) (Val ex_T100))) = Some (Num 100)
   \<and> map_option left
        (bar (Row (ex_env None) (Some (Num 500)) []
               (ex_leaf (ex_ti ''run_1'' (Some ''success'') Undefined (Val ex_T10) (Val ex_T30) 1))
               (Val ex_T0) (Val ex_T100))) = Some (Num 50)"
proof (intro conjI impI)
  assume h: "find_instance e t = Some i \<and> runDuration e gs ge = Num r \<and> 0 < r \<and>
    taskDuration e (Some i) = Num d \<and> taskStartOffset e gs (Some i) = Num off \<and>
    ganttWidth_default gW = Num W"
  then show "map_option status_width (bar (Row e gW ogi t gs ge))
          = Some (Num (if W * (d / r) < 5 then 5 else W * (d / r)))"
    by (simp add: bar_Row Row_bar_def width_def taskDurationPercent_def)
  from h show "map_option left (bar (Row e gW ogi t gs ge)) = Some (Num (W * (off / r)))"
    by (simp add: bar_Row Row_bar_def offsetMargin_def taskStartOffsetPercent_def mult.commute)
next
  show "map_option status_width
        (bar (Row (ex_env None) (Some (Num 500)) []
               (ex_leaf (ex_ti ''run_1'' (Some ''success'') Undefined (Val ex_T10) (Val ex_T30) 1))
               (Val ex_T0) (Val ex_T100))) = Some (Num 100)"
    by (simp add: bar_Row Row_bar_def find_instance_def geometry_defs ex_defs)
  show "map_option left
        (bar (Row (ex_env None) (Some (Num 500)) []
               (ex_leaf (ex_ti ''run_1'' (Some ''success'') Undefined (Val ex_T10) (Val ex_T30) 1))
               (Val ex_T0) (Val ex_T100))) = Some (Num 50)"
    by (simp add: bar_Row Row_bar_def find_instance_def geometry_defs ex_defs)
qed

text \<open>The theorem at an instance queued at second 10, started at second 30 and ended at
  second 100, with the default width: 350 pixels wide, 50 pixels from the left.\<close>

theorem Row_geometry_proportional_witness:
  "find_instance (ex_env None)
     (ex_leaf (ex_ti ''run_1'' (Some ''running'') (Val ex_T10) (Val ex_T30) (Val ex_T100) 1))
     = Some (ex_ti ''run_1'' (Some ''running'') (Val ex_T10) (Val ex_T30) (Val ex_T100) 1) \<and>
   runDuration (ex_env None) (Val ex_T0) (Val ex_T100) = Num 100000 \<and>
   taskDuration (ex_env None)
     (Some (ex_ti ''run_1'' (Some ''running'') (Val ex_T10) (Val ex_T30) (Val ex_T100) 1))
     = Num 70000 \<and>
   taskStartOffset (ex_env None) (Val ex_T0)
     (Some (ex_ti ''run_1'' (Some ''running'') (Val ex_T10) (Val ex_T30) (Val ex_T100) 1))
     = Num 10000 \<and>
   map_option status_width
     (bar (Row (ex_env None) None []
        (ex_leaf (ex_ti ''run_1'' (Some ''running'') (Val ex_T10) (Val ex_T30) (Val ex_T100) 1))
        (Val ex_T0) (Val ex_T100))) = Some (Num 350) \<and>
   map_option left
     (bar (Row (ex_env None) None []
        (ex_leaf (ex_ti ''run_1'' (Some ''running'') (Val ex_T10) (Val ex_T30) (Val ex_T100) 1))
        (Val ex_T0) (Val ex_T100))) = Some (Num 50)"
proof -
  let ?i = "ex_ti ''run_1'' (Some ''running'') (Val ex_T10) (Val ex_T30) (Val ex_T100) 1"
  have h: "find_instance (ex_env None) (ex_leaf ?i) = Some ?i \<and>
      runDuration (ex_env None) (Val ex_T0) (Val ex_T100) = Num 100000 \<and> (0::real) < 100000 \<and>
      taskDuration (ex_env None) (Some ?i) = Num 70000 \<and>
      taskStartOffset (ex_env None) (Val ex_T0) (Some ?i) = Num 10000 \<and>
      ganttWidth_default None = Num 500"
    by (simp add: find_instance_def geometry_defs ex_defs)
  from Row_geometry_proportional [THEN conjunct1, rule_format, OF h, of "[]"] h
  show ?thesis by simp
qed

subsection \<open>The queued segment\<close>

text \<open>
  C2, as the claim states it, fails: an instance that is queued now (state \<open>queued\<close>, a
  \<open>queuedDttm\<close>, no \<open>startDate\<close>) has a valid queued time, and its bar is rendered without
  a queued segment.
\<close>

theorem queued_segment_counterexample:
  "queuedDttm (ex_ti ''run_1'' (Some ''queued'') (Val ex_T10) Null Null 1) = Val ex_T10 \<and>
   startDate (ex_ti ''run_1'' (Some ''queued'') (Val ex_T10) Null Null 1) = Null \<and>
   hasValidQueuedDttm (Some (ex_ti ''run_1'' (Some ''queued'') (Val ex_T10) Null Null 1)) \<and>
   map_option queued_segment
     (bar (Row (ex_env None) (Some (Num 500)) []
            (ex_leaf (ex_ti ''run_1'' (Some ''queued'') (Val ex_T10) Null Null 1))
            (Val ex_T0) (Val ex_T100))) = Some None"
  by (simp add: bar_Row Row_bar_def find_instance_def geometry_defs ex_defs)

text \<open>
  C2, amended. For a resolved instance the queued segment is rendered iff the state of
  the instance is not \<open>queued\<close>, its \<open>queuedDttm\<close> is a non-empty string, and its
  \<open>startDate\<close> is missing or empty or \<open>queuedDttm\<close> is below it in the order of strings.
  When the last two conditions fail there is no segment and the queued width that enters
  the width of the bar is 0; an instance whose \<open>queuedDttm\<close> equals its \<open>startDate\<close> has no
  segment.
\<close>

theorem queued_segment_rendered_iff:
  assumes "find_instance e t = Some i"
  shows "\<exists>b. bar (Row e gW ogi t gs ge) = Some b \<and>
          ((queued_segment b \<noteq> None) =
             (state i \<noteq> Some ''queued'' \<and> truthy (queuedDttm i) \<and>
              (\<not> truthy (startDate i) \<or> string_lt (queuedDttm i) (startDate i)))) \<and>
          (\<not> (truthy (queuedDttm i) \<and>
               (\<not> truthy (startDate i) \<or> string_lt (queuedDttm i) (startDate i))) \<longrightarrow>
             queued_segment b = None \<and> flex_width b = jadd (status_width b) (Num 0)) \<and>
          (queuedDttm i = startDate i \<longrightarrow> queued_segment b = None)"
proof -
  have valid: "hasValidQueuedDttm (Some i) =
      (truthy (queuedDttm i) \<and>
       (\<not> truthy (startDate i) \<or> string_lt (queuedDttm i) (startDate i)))"
    by (auto simp add: hasValidQueuedDttm_def chain_def)
  have eq: "queuedDttm i = startDate i \<Longrightarrow> \<not> hasValidQueuedDttm (Some i)"
    by (cases "startDate i")
       (simp_all add: hasValidQueuedDttm_def chain_def truthy_def string_lt_def js_string_lt_irrefl)
  have zero: "\<not> hasValidQueuedDttm (Some i) \<Longrightarrow>
      queuedWidth e (ganttWidth_default gW) gs ge (Some i) = Num 0"
    by (simp add: queuedWidth_def)
  show ?thesis
    using assms valid eq zero by (auto simp add: bar_Row Row_bar_def)
qed

text \<open>The theorem at a running instance queued at second 10 and started at second 30: the
  segment is there, 100 pixels wide.\<close>

theorem queued_segment_rendered_iff_witness:
  "find_instance (ex_env None)
     (ex_leaf (ex_ti ''run_1'' (Some ''running'') (Val ex_T10) (Val ex_T30) Null 1))
   = Some (ex_ti ''run_1'' (Some ''running'') (Val ex_T10) (Val ex_T30) Null 1) \<and>
   map_option queued_segment
     (bar (Row (ex_env None) (Some (Num 500)) []
            (ex_leaf (ex_ti ''run_1'' (Some ''running'') (Val ex_T10) (Val ex_T30) Null 1))
            (Val ex_T0) (Val ex_T100))) = Some (Some (Num 100))"
proof -
  let ?i = "ex_ti ''run_1'' (Some ''running'') (Val ex_T10) (Val ex_T30) Null 1"
  have h: "find_instance (ex_env None) (ex_leaf ?i) = Some ?i"
    by (simp add: find_instance_def ex_defs)
  have q: "map_option queued_segment
     (bar (Row (ex_env None) (Some (Num 500)) [] (ex_leaf ?i) (Val ex_T0) (Val ex_T100)))
     = Some (Some (Num 100))"
    by (simp add: bar_Row Row_bar_def find_instance_def geometry_defs ex_defs)
  from queued_segment_rendered_iff [OF h, of "Some (Num 500)" "[]" "Val ex_T0" "Val ex_T100"]
  have "state ?i \<noteq> Some ''queued'' \<and> truthy (queuedDttm ?i) \<and>
        (\<not> truthy (startDate ?i) \<or> string_lt (queuedDttm ?i) (startDate ?i))"
    using q by auto
  with h q show ?thesis by simp
qed

subsection \<open>The window of length zero\<close>

text \<open>
  C3, as the claim states it, fails: in a window of length zero nothing guards the
  division. An instance that starts with the window and ends 30 s later is rendered with
  an infinite width and a left margin that is not a number.
\<close>

theorem zero_window_counterexample:
  "runDuration (ex_env None) (Val ex_T0) (Val ex_T0) = Num 0 \<and>
   map_option status_width
     (bar (Row (ex_env None) (Some (Num 500)) []
            (ex_leaf (ex_ti ''run_1'' (Some ''success'') Undefined (Val ex_T0) (Val ex_T30) 1))
            (Val ex_T0) (Val ex_T0))) = Some PosInf \<and>
   map_option left
     (bar (Row (ex_env None) (Some (Num 500)) []
            (ex_leaf (ex_ti ''run_1'' (Some ''success'') Undefined (Val ex_T0) (Val ex_T30) 1))
            (Val ex_T0) (Val ex_T0))) = Some NaN"
  by (simp add: bar_Row Row_bar_def find_instance_def geometry_defs ex_defs jinf_def)

text \<open>
  C3, amended. When \<open>runDuration\<close> is 0 and an instance resolves, the bar is rendered all
  the same; its left margin is never finite, and its width is \<open>NaN\<close>, infinite or the
  5 pixels of the minimum: for a positive finite \<open>ganttWidth\<close>, \<open>NaN\<close> when the task
  duration is 0, infinite when it is positive, 5 when it is negative.
\<close>

theorem zero_window_not_finite:
  assumes "find_instance e t = Some i" and "runDuration e gs ge = Num 0"
  shows "\<exists>b. bar (Row e gW ogi t gs ge) = Some b \<and>
          \<not> finite_num (left b) \<and>
          (status_width b = NaN \<or> status_width b = PosInf \<or> status_width b = Num 5) \<and>
          (\<forall>d W. taskDuration e (Some i) = Num d \<and> ganttWidth_default gW = Num W \<and> 0 < W \<longrightarrow>
             status_width b = (if d = 0 then NaN else if 0 < d then PosInf else Num 5))"
proof -
  let ?gw = "ganttWidth_default gW"
  have l: "\<not> finite_num (offsetMargin e ?gw gs ge (Some i))"
    using assms(2)
    by (simp add: offsetMargin_def taskStartOffsetPercent_def jmul_not_finite_left
        jdiv_zero_not_finite)
  have "\<not> finite_num (jmul ?gw (taskDurationPercent e gs ge (Some i)))"
    using assms(2)
    by (simp add: taskDurationPercent_def jmul_not_finite_right jdiv_zero_not_finite)
  then have w: "width e ?gw gs ge (Some i) = NaN \<or> width e ?gw gs ge (Some i) = PosInf \<or>
      width e ?gw gs ge (Some i) = Num 5"
    unfolding width_def Let_def by (rule floor5_cases)
  have x: "taskDuration e (Some i) = Num d \<and> ?gw = Num W \<and> 0 < W \<longrightarrow>
      width e ?gw gs ge (Some i) = (if d = 0 then NaN else if 0 < d then PosInf else Num 5)"
    for d W
    using assms(2) by (simp add: width_def taskDurationPercent_def jinf_def)
  show ?thesis
    using assms(1) l w x by (auto simp add: bar_Row Row_bar_def)
qed

text \<open>The theorem at a window without dates and an instance of duration 0: the width is
  \<open>NaN\<close> and the left margin is not finite.\<close>

theorem zero_window_not_finite_witness:
  "find_instance (ex_env None)
     (ex_leaf (ex_ti ''run_1'' (Some ''success'') Undefined (Val ex_T10) (Val ex_T10) 1))
     = Some (ex_ti ''run_1'' (Some ''success'') Undefined (Val ex_T10) (Val ex_T10) 1) \<and>
   runDuration (ex_env None) Undefined Undefined = Num 0 \<and>
   map_option status_width
     (bar (Row (ex_env None) None []
        (ex_leaf (ex_ti ''run_1'' (Some ''success'') Undefined (Val ex_T10) (Val ex_T10) 1))
        Undefined Undefined)) = Some NaN \<and>
   map_option (\<lambda>b. finite_num (left b))
     (bar (Row (ex_env None) None []
        (ex_leaf (ex_ti ''run_1'' (Some ''success'') Undefined (Val ex_T10) (Val ex_T10) 1))
        Undefined Undefined)) = Some False"
proof -
  let ?i = "ex_ti ''run_1'' (Some ''success'') Undefined (Val ex_T10) (Val ex_T10) 1"
  have h1: "find_instance (ex_env None) (ex_leaf ?i) = Some ?i"
    by (simp add: find_instance_def ex_defs)
  have h2: "runDuration (ex_env None) Undefined Undefined = Num 0"
    by (simp add: runDuration_def ex_defs)
  have d: "taskDuration (ex_env None) (Some ?i) = Num 0 \<and> ganttWidth_default None = Num 500 \<and>
      (0::real) < 500"
    by (simp add: geometry_defs ex_defs)
  from zero_window_not_finite [OF h1 h2, of None "[]"] d h1 h2
  show ?thesis by auto
qed

subsection \<open>The minimum width\<close>

text \<open>
  C4, as the claim states it, fails: the minimum does not look at the source duration. An
  instance of duration 0 in the window of 100 s has a computed width of 0 and is rendered
  5 pixels wide.
\<close>

theorem min_width_counterexample:
  "taskDuration (ex_env None)
     (Some (ex_ti ''run_1'' (Some ''success'') Undefined (Val ex_T10) (Val ex_T10) 1)) = Num 0 \<and>
   jmul (Num 500) (taskDurationPercent (ex_env None) (Val ex_T0) (Val ex_T100)
     (Some (ex_ti ''run_1'' (Some ''success'') Undefined (Val ex_T10) (Val ex_T10) 1))) = Num 0 \<and>
   map_option status_width
     (bar (Row (ex_env None) (Some (Num 500)) []
        (ex_leaf (ex_ti ''run_1'' (Some ''success'') Undefined (Val ex_T10) (Val ex_T10) 1))
        (Val ex_T0) (Val ex_T100))) = Some (Num 5)"
  by (simp add: bar_Row Row_bar_def find_instance_def geometry_defs ex_defs)

text \<open>
  C4, amended. For a resolved instance the width of the main bar is the computed width,
  or 5 where the computed width is less than 5, whatever the task duration: it is never
  less than 5, and it is at least 5 whenever \<open>runDuration\<close> is positive and the task
  duration and \<open>ganttWidth\<close> are finite. A queued segment that is rendered has the
  computed queued width, or 5 where that is less than 5, by the same rule on its own.
\<close>

theorem min_width_policy:
  assumes "find_instance e t = Some i"
  shows "\<exists>b. bar (Row e gW ogi t gs ge) = Some b \<and>
          status_width b =
            (if jlt (jmul (ganttWidth_default gW) (jdiv (taskDuration e (Some i)) (runDuration e gs ge)))
                  (Num 5)
             then Num 5
             else jmul (ganttWidth_default gW) (jdiv (taskDuration e (Some i)) (runDuration e gs ge))) \<and>
          \<not> jlt (status_width b) (Num 5) \<and>
          (\<forall>r d W. runDuration e gs ge = Num r \<and> 0 < r \<and> taskDuration e (Some i) = Num d \<and>
                   ganttWidth_default gW = Num W \<longrightarrow> jle (Num 5) (status_width b)) \<and>
          (\<forall>q. queued_segment b = Some q \<longrightarrow>
             q = (if jlt (jmul (ganttWidth_default gW)
                            (jdiv (queuedDuration e (Some i)) (runDuration e gs ge))) (Num 5)
                  then Num 5
                  else jmul (ganttWidth_default gW)
                         (jdiv (queuedDuration e (Some i)) (runDuration e gs ge))) \<and>
             \<not> jlt q (Num 5))"
proof -
  let ?gw = "ganttWidth_default gW"
  let ?w = "jmul ?gw (jdiv (taskDuration e (Some i)) (runDuration e gs ge))"
  let ?q = "jmul ?gw (jdiv (queuedDuration e (Some i)) (runDuration e gs ge))"
  have w: "width e ?gw gs ge (Some i) = (if jlt ?w (Num 5) then Num 5 else ?w)"
    by (simp add: width_def taskDurationPercent_def)
  have nb: "\<not> jlt (width e ?gw gs ge (Some i)) (Num 5)"
    by (simp add: w)
  have ge5: "runDuration e gs ge = Num r \<and> 0 < r \<and> taskDuration e (Some i) = Num d \<and>
      ?gw = Num W \<longrightarrow> jle (Num 5) (width e ?gw gs ge (Some i))" for r d W
  proof
    assume a: "runDuration e gs ge = Num r \<and> 0 < r \<and> taskDuration e (Some i) = Num d \<and>
      ?gw = Num W"
    then have "?w = Num (W * (d / r))" by simp
    then have "?w \<noteq> NaN" by simp
    then show "jle (Num 5) (width e ?gw gs ge (Some i))"
      unfolding w by (rule floor5_at_least)
  qed
  have q: "hasValidQueuedDttm (Some i) \<Longrightarrow>
      queuedWidth e ?gw gs ge (Some i) = (if jlt ?q (Num 5) then Num 5 else ?q)"
    by (simp add: queuedWidth_def queuedDurationPercent_def)
  from assms obtain b where b: "bar (Row e gW ogi t gs ge) = Some b"
    and sw: "status_width b = width e ?gw gs ge (Some i)"
    and qs: "queued_segment b =
      (if state i \<noteq> Some ''queued'' \<and> hasValidQueuedDttm (Some i)
       then Some (queuedWidth e ?gw gs ge (Some i)) else None)"
    by (simp add: bar_Row Row_bar_def)
  have c1: "status_width b = (if jlt ?w (Num 5) then Num 5 else ?w)"
    by (simp only: sw w)
  have c2: "\<not> jlt (status_width b) (Num 5)"
    by (simp only: sw nb not_False_eq_True)
  have c3: "\<forall>r d W. runDuration e gs ge = Num r \<and> 0 < r \<and> taskDuration e (Some i) = Num d \<and>
      ?gw = Num W \<longrightarrow> jle (Num 5) (status_width b)"
    unfolding sw using ge5 by blast
  have c4: "\<forall>q. queued_segment b = Some q \<longrightarrow>
      q = (if jlt ?q (Num 5) then Num 5 else ?q) \<and> \<not> jlt q (Num 5)"
  proof (intro allI impI)
    fix q' assume "queued_segment b = Some q'"
    with qs have v: "hasValidQueuedDttm (Some i)" and q': "q' = queuedWidth e ?gw gs ge (Some i)"
      by (simp_all split: if_splits)
    from q [OF v] q' have "q' = (if jlt ?q (Num 5) then Num 5 else ?q)" by simp
    then show "q' = (if jlt ?q (Num 5) then Num 5 else ?q) \<and> \<not> jlt q' (Num 5)"
      by simp
  qed
  from b c1 c2 c3 c4 show ?thesis by blast
qed

text \<open>The theorem at width 10 and an instance queued at second 10, started at second 30
  and ended at second 100: the main bar keeps its 7 pixels, the queued segment of
  2 pixels is rendered 5 pixels wide.\<close>

theorem min_width_policy_witness:
  "find_instance (ex_env None)
     (ex_leaf (ex_ti ''run_1'' (Some ''running'') (Val ex_T10) (Val ex_T30) (Val ex_T100) 1))
     = Some (ex_ti ''run_1'' (Some ''running'') (Val ex_T10) (Val ex_T30) (Val ex_T100) 1) \<and>
   map_option status_width
     (bar (Row (ex_env None) (Some (Num 10)) []
        (ex_leaf (ex_ti ''run_1'' (Some ''running'') (Val ex_T10) (Val ex_T30) (Val ex_T100) 1))
        (Val ex_T0) (Val ex_T100))) = Some (Num 7) \<and>
   map_option queued_segment
     (bar (Row (ex_env None) (Some (Num 10)) []
        (ex_leaf (ex_ti ''run_1'' (Some ''running'') (Val ex_T10) (Val ex_T30) (Val ex_T100) 1))
        (Val ex_T0) (Val ex_T100))) = Some (Some (Num 5))"
proof -
  let ?i = "ex_ti ''run_1'' (Some ''running'') (Val ex_T10) (Val ex_T30) (Val ex_T100) 1"
  let ?e = "ex_env None"
  have h: "find_instance ?e (ex_leaf ?i) = Some ?i"
    by (simp add: find_instance_def ex_defs)
  have d: "jmul (ganttWidth_default (Some (Num 10)))
        (jdiv (taskDuration ?e (Some ?i)) (runDuration ?e (Val ex_T0) (Val ex_T100))) = Num 7"
    by (simp add: geometry_defs ex_defs)
  have s: "queued_segment b \<noteq> None" if "bar (Row ?e (Some (Num 10)) [] (ex_leaf ?i)
      (Val ex_T0) (Val ex_T100)) = Some b" for b
    using that by (auto simp add: bar_Row Row_bar_def find_instance_def geometry_defs ex_defs)
  have q: "jmul (ganttWidth_default (Some (Num 10)))
        (jdiv (queuedDuration ?e (Some ?i)) (runDuration ?e (Val ex_T0) (Val ex_T100))) = Num 2"
    by (simp add: geometry_defs ex_defs)
  from min_width_policy [OF h, of "Some (Num 10)" "[]" "Val ex_T0" "Val ex_T100"]
  obtain b where b: "bar (Row ?e (Some (Num 10)) [] (ex_leaf ?i) (Val ex_T0) (Val ex_T100)) = Some b"
    and w: "status_width b = Num 7"
    and qq: "\<forall>q. queued_segment b = Some q \<longrightarrow> q = Num 5 \<and> \<not> jlt q (Num 5)"
    unfolding d q by auto
  from s [OF b] qq have "queued_segment b = Some (Num 5)" by auto
  with h b w show ?thesis by simp
qed

subsection \<open>No instance for the selected run\<close>

text \<open>
  C5. When no instance of the task has the selected \<open>runId\<close>, the row is its frame only:
  there is no bar (and so no tooltip) and no failure marker, and the frame is not
  highlighted. The row is rendered all the same: \<open>Row\<close> is a total function.
\<close>

theorem no_instance_frame_only:
  assumes "\<forall>ti \<in> set (instances t). selected_runId e \<noteq> Some (runId ti)"
  shows "bar (Row e gW ogi t gs ge) = None \<and> fails (Row e gW ogi t gs ge) = [] \<and>
         frame (Row e gW ogi t gs ge) =
           \<lparr> borderBottomColor =
               (if children t \<noteq> None \<and> isOpen ogi t then ''gray.400'' else ''gray.200''),
             bg = ''inherit'', box_width = ganttWidth_default gW \<rparr>"
proof -
  from assms have n: "find_instance e t = None"
    by (simp add: find_instance_None)
  have "taskFails e None t = None"
    by (simp add: taskFails_def useTaskFails_def enabled_def)
  with n show ?thesis
    by (simp add: bar_Row fails_Row frame_Row Row_bar_def Row_fails_def Row_box_def isSelected_def)
qed

text \<open>The theorem at a task whose only instance belongs to another run, with a backend
  that has a failure to report.\<close>

theorem no_instance_frame_only_witness:
  "map runId (instances (ex_leaf (ex_ti ''run_2'' (Some ''failed'') Null (Val ex_T10) (Val ex_T30) 2)))
     = [''run_2''] \<and>
   selected_runId (ex_env (Some [ex_fail (Val ex_T10)])) = Some ''run_1'' \<and>
   Row (ex_env (Some [ex_fail (Val ex_T10)])) None []
     (ex_leaf (ex_ti ''run_2'' (Some ''failed'') Null (Val ex_T10) (Val ex_T30) 2))
     (Val ex_T0) (Val ex_T100)
   = Rendered \<lparr> borderBottomColor = ''gray.200'', bg = ''inherit'', box_width = Num 500 \<rparr>
       None [] []"
proof -
  let ?t = "ex_leaf (ex_ti ''run_2'' (Some ''failed'') Null (Val ex_T10) (Val ex_T30) 2)"
  let ?e = "ex_env (Some [ex_fail (Val ex_T10)])"
  have h: "\<forall>ti \<in> set (instances ?t). selected_runId ?e \<noteq> Some (runId ti)"
    by (simp add: ex_defs)
  have c: "childRows (Row ?e None [] ?t (Val ex_T0) (Val ex_T100)) = []"
    by (simp add: childRows_Row isOpen_def)
  have i: "children ?t = None" "ganttWidth_default None = Num 500"
    by (simp_all add: ex_defs ganttWidth_default_def)
  from no_instance_frame_only [OF h, of None "[]" "Val ex_T0" "Val ex_T100"] c i
  have "Row ?e None [] ?t (Val ex_T0) (Val ex_T100)
     = Rendered \<lparr> borderBottomColor = ''gray.200'', bg = ''inherit'', box_width = Num 500 \<rparr>
       None [] []"
    by (cases "Row ?e None [] ?t (Val ex_T0) (Val ex_T100)") simp
  moreover have "map runId (instances ?t) = [''run_2'']" "selected_runId ?e = Some ''run_1''"
    by (simp_all add: ex_defs)
  ultimately show ?thesis by blast
qed

subsection \<open>The rows of the children\<close>

text \<open>
  C6, as the claim states it, fails: a group without an identifier has no identifier in
  \<open>openGroupIds\<close>, and with the empty string among the open groups the rows of its two
  children are rendered.
\<close>

theorem child_rows_counterexample:
  "task_id (ex_group None) = None \<and>
   task_id (ex_group None) \<notin> Some ` set [[]] \<and>
   childRows (Row (ex_env None) None [[]] (ex_group None) (Val ex_T0) (Val ex_T100))
   = [Row (ex_env None) (Some (Num 500)) [[]] ex_child1 (Val ex_T0) (Val ex_T100),
      Row (ex_env None) (Some (Num 500)) [[]] ex_child2 (Val ex_T0) (Val ex_T100)]"
  by (simp add: childRows_Row isOpen_def or_empty_def ex_group_def ganttWidth_default_def)

text \<open>
  C6, amended. The rows of the children are rendered iff \<^verbatim>\<open>task.id || ""\<close> (the
  identifier of the task when it has one, the empty string when it has none) is in
  \<open>openGroupIds\<close> and the task has a non-empty list of children. They are then one row
  per child, in the order of \<open>children\<close>, each with the parent's \<open>ganttWidth\<close>,
  \<open>openGroupIds\<close>, \<open>ganttStartDate\<close> and \<open>ganttEndDate\<close>; otherwise there is none.
\<close>

theorem child_rows_iff_open:
  "childRows (Row e gW ogi t gs ge) =
     (if or_empty (task_id t) \<in> set ogi
      then (case children t of
              None \<Rightarrow> []
            | Some cs \<Rightarrow> map (\<lambda>c. Row e (Some (ganttWidth_default gW)) ogi c gs ge) cs)
      else []) \<and>
   ((childRows (Row e gW ogi t gs ge) \<noteq> []) =
      (or_empty (task_id t) \<in> set ogi \<and> (\<exists>cs. children t = Some cs \<and> cs \<noteq> []))) \<and>
   (\<forall>s. task_id t = Some s \<longrightarrow> (or_empty (task_id t) \<in> set ogi) = (s \<in> set ogi)) \<and>
   (task_id t = None \<longrightarrow> (or_empty (task_id t) \<in> set ogi) = ([] \<in> set ogi)) \<and>
   ganttWidth_default (Some (ganttWidth_default gW)) = ganttWidth_default gW"
  by (auto simp add: childRows_Row isOpen_def or_empty_def ganttWidth_default_def
      split: option.splits)

text \<open>The theorem at a group of two children, open and closed.\<close>

theorem child_rows_iff_open_witness:
  "task_id (ex_group (Some ''group'')) = Some ''group'' \<and>
   childRows (Row (ex_env None) None [''other'', ''group''] (ex_group (Some ''group''))
      (Val ex_T0) (Val ex_T100))
   = [Row (ex_env None) (Some (Num 500)) [''other'', ''group''] ex_child1 (Val ex_T0) (Val ex_T100),
      Row (ex_env None) (Some (Num 500)) [''other'', ''group''] ex_child2 (Val ex_T0) (Val ex_T100)] \<and>
   childRows (Row (ex_env None) None [''other''] (ex_group (Some ''group''))
      (Val ex_T0) (Val ex_T100)) = []"
proof -
  have h: "task_id (ex_group (Some ''group'')) = Some ''group''"
    "children (ex_group (Some ''group'')) = Some [ex_child1, ex_child2]"
    "ganttWidth_default None = Num 500"
    by (simp_all add: ex_group_def ganttWidth_default_def)
  from child_rows_iff_open [of "ex_env None" None "[''other'', ''group'']" "ex_group (Some ''group'')"
      "Val ex_T0" "Val ex_T100"]
    child_rows_iff_open [of "ex_env None" None "[''other'']" "ex_group (Some ''group'')"
      "Val ex_T0" "Val ex_T100"] h
  show ?thesis by (simp add: or_empty_def)
qed

subsection \<open>Failure markers\<close>

text \<open>
  C7. With a resolved instance and a fetched list of failures, the markers are, in the
  order of the list, those of the entries whose \<open>startDate\<close> differs from the
  \<open>startDate\<close> of the instance and is after \<open>ganttStartDate\<close>; no other entry has a
  marker.
\<close>

theorem fail_markers_filter:
  assumes "find_instance e t = Some i" and "taskFails e (Some i) t = Some tfs"
  shows "map p_taskFail (fails (Row e gW ogi t gs ge)) =
           filter (\<lambda>tf. tf_startDate tf \<noteq> startDate i \<and> isAfter e (tf_startDate tf) gs) tfs \<and>
         fails (Row e gW ogi t gs ge) =
           map (\<lambda>tf. \<lparr> p_taskFail = tf, p_ganttStartDate = gs,
                        p_ganttWidth = ganttWidth_default gW,
                        p_runDuration = runDuration e gs ge \<rparr>)
             (filter (\<lambda>tf. tf_startDate tf \<noteq> startDate i \<and> isAfter e (tf_startDate tf) gs) tfs)"
proof -
  have k: "keep_fail e (Some i) gs =
      (\<lambda>tf. tf_startDate tf \<noteq> startDate i \<and> isAfter e (tf_startDate tf) gs)"
    by (rule ext) (simp add: keep_fail_def chain_def)
  from assms show ?thesis
    by (simp add: fails_Row Row_fails_def k comp_def)
qed

text \<open>The theorem at an instance started at second 30 with failures at second 10
  (kept), at second 30 (the start of the instance) and at the start of the window.\<close>

theorem fail_markers_filter_witness:
  "find_instance (ex_env (Some [ex_fail (Val ex_T10), ex_fail (Val ex_T30), ex_fail (Val ex_T0)]))
     (ex_leaf (ex_ti ''run_1'' (Some ''success'') Null (Val ex_T30) (Val ex_T100) 3))
     = Some (ex_ti ''run_1'' (Some ''success'') Null (Val ex_T30) (Val ex_T100) 3) \<and>
   taskFails (ex_env (Some [ex_fail (Val ex_T10), ex_fail (Val ex_T30), ex_fail (Val ex_T0)]))
     (Some (ex_ti ''run_1'' (Some ''success'') Null (Val ex_T30) (Val ex_T100) 3))
     (ex_leaf (ex_ti ''run_1'' (Some ''success'') Null (Val ex_T30) (Val ex_T100) 3))
     = Some [ex_fail (Val ex_T10), ex_fail (Val ex_T30), ex_fail (Val ex_T0)] \<and>
   map p_taskFail
     (fails (Row (ex_env (Some [ex_fail (Val ex_T10), ex_fail (Val ex_T30), ex_fail (Val ex_T0)]))
        None [] (ex_leaf (ex_ti ''run_1'' (Some ''success'') Null (Val ex_T30) (Val ex_T100) 3))
        (Val ex_T0) (Val ex_T100)))
     = [ex_fail (Val ex_T10)]"
proof -
  let ?tfs = "[ex_fail (Val ex_T10), ex_fail (Val ex_T30), ex_fail (Val ex_T0)]"
  let ?i = "ex_ti ''run_1'' (Some ''success'') Null (Val ex_T30) (Val ex_T100) 3"
  have h1: "find_instance (ex_env (Some ?tfs)) (ex_leaf ?i) = Some ?i"
    by (simp add: find_instance_def ex_defs)
  have h2: "taskFails (ex_env (Some ?tfs)) (Some ?i) (ex_leaf ?i) = Some ?tfs"
    by (simp add: taskFails_def useTaskFails_def enabled_def or_undefined_def ex_env_def
        ex_ti_def ex_leaf_def)
  have f: "filter (\<lambda>tf. tf_startDate tf \<noteq> startDate ?i \<and>
              isAfter (ex_env (Some ?tfs)) (tf_startDate tf) (Val ex_T0)) ?tfs
           = [ex_fail (Val ex_T10)]"
    by (simp add: ex_defs)
  from fail_markers_filter [OF h1 h2, of None "[]" "Val ex_T0" "Val ex_T100"] f h1 h2
  show ?thesis by simp
qed

text \<open>
  C8. The \<open>enabled\<close> flag that \<open>Row\<close> hands to \<open>useTaskFails\<close> is true iff the resolved
  instance has a \<open>tryNumber\<close> greater than 1 and the task has a non-empty identifier.
  When it is true the data of the row is the answer of the backend for the task and the
  selected run, and the markers are those of its entries that pass the filter. When it is
  false, \<open>useTaskFails\<close> does not ask the backend (its result is \<open>None\<close> whatever the
  backend would answer) and the row has no failure marker.
\<close>

theorem fetch_enabled_iff:
  "enabled (find_instance e t) t =
     ((\<exists>i n. find_instance e t = Some i \<and> tryNumber i = Some n \<and> 1 < n) \<and>
      (\<exists>s. task_id t = Some s \<and> s \<noteq> [])) \<and>
   taskFails e (find_instance e t) t =
     (if (\<exists>i n. find_instance e t = Some i \<and> tryNumber i = Some n \<and> 1 < n) \<and>
         (\<exists>s. task_id t = Some s \<and> s \<noteq> [])
      then taskFailsApi e (task_id t) (or_undefined (selected_runId e))
      else None) \<and>
   map p_taskFail (fails (Row e gW ogi t gs ge)) =
     filter (keep_fail e (find_instance e t) gs)
       (if (\<exists>i n. find_instance e t = Some i \<and> tryNumber i = Some n \<and> 1 < n) \<and>
           (\<exists>s. task_id t = Some s \<and> s \<noteq> [])
        then (case taskFailsApi e (task_id t) (or_undefined (selected_runId e)) of
                None \<Rightarrow> []
              | Some tfs \<Rightarrow> tfs)
        else []) \<and>
   (\<not> enabled (find_instance e t) t \<longrightarrow>
      (\<forall>api. taskFails (e\<lparr>taskFailsApi := api\<rparr>) (find_instance e t) t = None) \<and>
      fails (Row e gW ogi t gs ge) = [])"
proof -
  let ?c = "(\<exists>i n. find_instance e t = Some i \<and> tryNumber i = Some n \<and> 1 < n) \<and>
      (\<exists>s. task_id t = Some s \<and> s \<noteq> [])"
  have en: "enabled (find_instance e t) t = ?c"
    by (auto simp add: enabled_def split: option.splits)
  have tid: "or_undefined (task_id t) = task_id t" if "?c"
    using that by (auto simp add: or_undefined_def)
  have tf: "taskFails e (find_instance e t) t =
      (if ?c then taskFailsApi e (task_id t) (or_undefined (selected_runId e)) else None)"
  proof (cases "?c")
    case True
    with en have "enabled (find_instance e t) t" by blast
    then have "taskFails e (find_instance e t) t =
        taskFailsApi e (or_undefined (task_id t)) (or_undefined (selected_runId e))"
      by (simp add: taskFails_def useTaskFails_def)
    then show ?thesis
      by (simp only: tid [OF True] if_P [OF True])
  next
    case False
    with en have "\<not> enabled (find_instance e t) t" by blast
    then have "taskFails e (find_instance e t) t = None"
      by (simp add: taskFails_def useTaskFails_def)
    then show ?thesis
      by (simp only: if_not_P [OF False])
  qed
  have mk: "map p_taskFail (fails (Row e gW ogi t gs ge)) =
      filter (keep_fail e (find_instance e t) gs)
        (case taskFails e (find_instance e t) t of None \<Rightarrow> [] | Some tfs \<Rightarrow> tfs)"
    by (simp add: fails_Row Row_fails_def comp_def)
  have m: "map p_taskFail (fails (Row e gW ogi t gs ge)) =
      filter (keep_fail e (find_instance e t) gs)
        (if ?c
         then (case taskFailsApi e (task_id t) (or_undefined (selected_runId e)) of
                 None \<Rightarrow> []
               | Some tfs \<Rightarrow> tfs)
         else [])"
  proof (cases "?c")
    case True
    show ?thesis
      by (simp only: mk tf if_P [OF True])
  next
    case False
    show ?thesis
      by (simp only: mk tf if_not_P [OF False] option.case)
  qed
  have d: "\<not> enabled (find_instance e t) t \<longrightarrow>
      (\<forall>api. taskFails (e\<lparr>taskFailsApi := api\<rparr>) (find_instance e t) t = None) \<and>
      fails (Row e gW ogi t gs ge) = []"
    by (simp add: fails_Row Row_fails_def taskFails_def useTaskFails_def)
  from en tf m d show ?thesis by (intro conjI)
qed

text \<open>The theorem at a first try, where the query is disabled though the backend has a
  failure to report, and at a second try, where it is enabled and the failure is marked.\<close>

theorem fetch_enabled_iff_witness:
  "\<not> enabled (find_instance (ex_env (Some [ex_fail (Val ex_T10)]))
        (ex_leaf (ex_ti ''run_1'' (Some ''success'') Null (Val ex_T30) (Val ex_T100) 1)))
      (ex_leaf (ex_ti ''run_1'' (Some ''success'') Null (Val ex_T30) (Val ex_T100) 1)) \<and>
   fails (Row (ex_env (Some [ex_fail (Val ex_T10)])) None []
      (ex_leaf (ex_ti ''run_1'' (Some ''success'') Null (Val ex_T30) (Val ex_T100) 1))
      (Val ex_T0) (Val ex_T100)) = [] \<and>
   enabled (find_instance (ex_env (Some [ex_fail (Val ex_T10)]))
        (ex_leaf (ex_ti ''run_1'' (Some ''success'') Null (Val ex_T30) (Val ex_T100) 2)))
      (ex_leaf (ex_ti ''run_1'' (Some ''success'') Null (Val ex_T30) (Val ex_T100) 2)) \<and>
   taskFails (ex_env (Some [ex_fail (Val ex_T10)]))
      (find_instance (ex_env (Some [ex_fail (Val ex_T10)]))
        (ex_leaf (ex_ti ''run_1'' (Some ''success'') Null (Val ex_T30) (Val ex_T100) 2)))
      (ex_leaf (ex_ti ''run_1'' (Some ''success'') Null (Val ex_T30) (Val ex_T100) 2))
     = Some [ex_fail (Val ex_T10)] \<and>
   map p_taskFail
     (fails (Row (ex_env (Some [ex_fail (Val ex_T10)])) None []
        (ex_leaf (ex_ti ''run_1'' (Some ''success'') Null (Val ex_T30) (Val ex_T100) 2))
        (Val ex_T0) (Val ex_T100))) = [ex_fail (Val ex_T10)]"
proof -
  let ?e = "ex_env (Some [ex_fail (Val ex_T10)])"
  let ?i1 = "ex_ti ''run_1'' (Some ''success'') Null (Val ex_T30) (Val ex_T100) 1"
  let ?i2 = "ex_ti ''run_1'' (Some ''success'') Null (Val ex_T30) (Val ex_T100) 2"
  have f1: "find_instance ?e (ex_leaf ?i1) = Some ?i1" "tryNumber ?i1 = Some 1"
    "task_id (ex_leaf ?i1) = Some ''task_a''"
    by (simp_all add: find_instance_def ex_defs)
  have f2: "find_instance ?e (ex_leaf ?i2) = Some ?i2" "tryNumber ?i2 = Some 2"
    "task_id (ex_leaf ?i2) = Some ''task_a''"
    by (simp_all add: find_instance_def ex_defs)
  have api: "taskFailsApi ?e (Some ''task_a'') (or_undefined (selected_runId ?e))
      = Some [ex_fail (Val ex_T10)]"
    by (simp add: ex_env_def)
  have k: "filter (keep_fail ?e (Some ?i2) (Val ex_T0)) [ex_fail (Val ex_T10)]
      = [ex_fail (Val ex_T10)]"
    by (simp add: keep_fail_def chain_def ex_defs)
  from fetch_enabled_iff [of ?e "ex_leaf ?i1" None "[]" "Val ex_T0" "Val ex_T100"] f1
  have a: "\<not> enabled (find_instance ?e (ex_leaf ?i1)) (ex_leaf ?i1) \<and>
      fails (Row ?e None [] (ex_leaf ?i1) (Val ex_T0) (Val ex_T100)) = []"
    by simp
  from fetch_enabled_iff [of ?e "ex_leaf ?i2" None "[]" "Val ex_T0" "Val ex_T100"] f2 api k
  have b: "enabled (find_instance ?e (ex_leaf ?i2)) (ex_leaf ?i2) \<and>
      taskFails ?e (find_instance ?e (ex_leaf ?i2)) (ex_leaf ?i2) = Some [ex_fail (Val ex_T10)] \<and>
      map p_taskFail (fails (Row ?e None [] (ex_leaf ?i2) (Val ex_T0) (Val ex_T100)))
        = [ex_fail (Val ex_T10)]"
    by simp
  from a b show ?thesis by blast
qed

subsection \<open>The left margin grows with the start offset\<close>

text \<open>
  C9, as the claim states it, fails: in a window of length zero the margins of two
  instances with start offsets 0 and 10 s are \<open>NaN\<close> and infinite, and the first is not
  less than or equal to the second.
\<close>

theorem offset_monotone_counterexample:
  "taskStartOffset (ex_env None) (Val ex_T0)
     (Some (ex_ti ''run_1'' (Some ''success'') Null (Val ex_T0) (Val ex_T30) 1)) = Num 0 \<and>
   taskStartOffset (ex_env None) (Val ex_T0)
     (Some (ex_ti ''run_1'' (Some ''success'') Null (Val ex_T10) (Val ex_T30) 1)) = Num 10000 \<and>
   runDuration (ex_env None) (Val ex_T0) (Val ex_T0) = Num 0 \<and>
   offsetMargin (ex_env None) (Num 500) (Val ex_T0) (Val ex_T0)
     (Some (ex_ti ''run_1'' (Some ''success'') Null (Val ex_T0) (Val ex_T30) 1)) = NaN \<and>
   offsetMargin (ex_env None) (Num 500) (Val ex_T0) (Val ex_T0)
     (Some (ex_ti ''run_1'' (Some ''success'') Null (Val ex_T10) (Val ex_T30) 1)) = PosInf \<and>
   \<not> jle (offsetMargin (ex_env None) (Num 500) (Val ex_T0) (Val ex_T0)
            (Some (ex_ti ''run_1'' (Some ''success'') Null (Val ex_T0) (Val ex_T30) 1)))
          (offsetMargin (ex_env None) (Num 500) (Val ex_T0) (Val ex_T0)
            (Some (ex_ti ''run_1'' (Some ''success'') Null (Val ex_T10) (Val ex_T30) 1)))"
  by (simp add: geometry_defs ex_defs jinf_def jle_def)

text \<open>
  C9, amended. For a positive finite \<open>runDuration\<close> and a finite \<open>ganttWidth\<close> that is
  not negative, of two resolved instances with finite start offsets the one with the
  smaller offset has the smaller or equal left margin, and the smaller one when
  \<open>ganttWidth\<close> is positive.
\<close>

theorem offset_monotone:
  assumes "runDuration e gs ge = Num r" and "0 < r"
    and "ganttWidth_default gW = Num W" and "0 \<le> W"
    and "find_instance e t1 = Some i1" and "find_instance e t2 = Some i2"
    and "taskStartOffset e gs (Some i1) = Num o1" and "taskStartOffset e gs (Some i2) = Num o2"
    and "o1 < o2"
  shows "\<exists>b1 b2. bar (Row e gW ogi1 t1 gs ge) = Some b1 \<and> bar (Row e gW ogi2 t2 gs ge) = Some b2 \<and>
           left b1 = offsetMargin e (Num W) gs ge (Some i1) \<and>
           left b2 = offsetMargin e (Num W) gs ge (Some i2) \<and>
           jle (left b1) (left b2) \<and> (0 < W \<longrightarrow> jlt (left b1) (left b2))"
proof -
  have l1: "offsetMargin e (Num W) gs ge (Some i1) = Num (o1 / r * W)"
    using assms by (simp add: offsetMargin_def taskStartOffsetPercent_def)
  have l2: "offsetMargin e (Num W) gs ge (Some i2) = Num (o2 / r * W)"
    using assms by (simp add: offsetMargin_def taskStartOffsetPercent_def)
  from \<open>o1 < o2\<close> \<open>0 < r\<close> have q: "o1 / r < o2 / r"
    by (simp add: divide_strict_right_mono)
  from q have "o1 / r \<le> o2 / r" by simp
  from this \<open>0 \<le> W\<close> have le: "o1 / r * W \<le> o2 / r * W"
    by (rule mult_right_mono)
  have lt: "0 < W \<Longrightarrow> o1 / r * W < o2 / r * W"
    using q by (rule mult_strict_right_mono)
  from assms(3,5,6) l1 l2 le lt show ?thesis
    by (simp add: bar_Row Row_bar_def jle_def)
qed

text \<open>The theorem at two instances started at second 10 and at second 30.\<close>

theorem offset_monotone_witness:
  "runDuration (ex_env None) (Val ex_T0) (Val ex_T100) = Num 100000 \<and>
   map_option left
     (bar (Row (ex_env None) None []
        (ex_leaf (ex_ti ''run_1'' (Some ''success'') Null (Val ex_T10) (Val ex_T30) 1))
        (Val ex_T0) (Val ex_T100))) = Some (Num 50) \<and>
   map_option left
     (bar (Row (ex_env None) None []
        (ex_leaf (ex_ti ''run_1'' (Some ''success'') Null (Val ex_T30) (Val ex_T100) 1))
        (Val ex_T0) (Val ex_T100))) = Some (Num 150) \<and>
   jlt (Num 50) (Num 150)"
proof -
  let ?i1 = "ex_ti ''run_1'' (Some ''success'') Null (Val ex_T10) (Val ex_T30) 1"
  let ?i2 = "ex_ti ''run_1'' (Some ''success'') Null (Val ex_T30) (Val ex_T100) 1"
  let ?e = "ex_env None"
  have h: "runDuration ?e (Val ex_T0) (Val ex_T100) = Num 100000" "(0::real) < 100000"
    "ganttWidth_default None = Num 500" "(0::real) \<le> 500"
    "find_instance ?e (ex_leaf ?i1) = Some ?i1" "find_instance ?e (ex_leaf ?i2) = Some ?i2"
    "taskStartOffset ?e (Val ex_T0) (Some ?i1) = Num 10000"
    "taskStartOffset ?e (Val ex_T0) (Some ?i2) = Num 30000" "(10000::real) < 30000"
    by (simp_all add: find_instance_def geometry_defs ex_defs)
  have o: "offsetMargin ?e (Num 500) (Val ex_T0) (Val ex_T100) (Some ?i1) = Num 50"
    "offsetMargin ?e (Num 500) (Val ex_T0) (Val ex_T100) (Some ?i2) = Num 150"
    by (simp_all add: geometry_defs ex_defs)
  from offset_monotone [OF h, of "[]" "[]"] o h(1)
  show ?thesis by auto
qed

subsection \<open>Groups without an identifier\<close>

text \<open>
  C10. For a task whose identifier is missing or the empty string, the membership test
  is made on the empty string: the task is open iff \<open>openGroupIds\<close> contains the empty
  string, and the rows of its children are rendered exactly then.
\<close>

theorem identifierless_group_open:
  assumes "task_id t = None \<or> task_id t = Some []"
  shows "isOpen ogi t = ([] \<in> set ogi) \<and>
         childRows (Row e gW ogi t gs ge) =
           (if [] \<in> set ogi
            then (case children t of
                    None \<Rightarrow> []
                  | Some cs \<Rightarrow> map (\<lambda>c. Row e (Some (ganttWidth_default gW)) ogi c gs ge) cs)
            else [])"
proof -
  from assms have "or_empty (task_id t) = []"
    by (auto simp add: or_empty_def)
  then show ?thesis
    by (simp add: childRows_Row isOpen_def)
qed

text \<open>The theorem at a group without identifier, with and without the empty string
  among the open groups.\<close>

theorem identifierless_group_open_witness:
  "(task_id (ex_group None) = None \<or> task_id (ex_group None) = Some []) \<and>
   isOpen [''group'', []] (ex_group None) \<and>
   childRows (Row (ex_env None) None [''group'', []] (ex_group None) (Val ex_T0) (Val ex_T100))
   = [Row (ex_env None) (Some (Num 500)) [''group'', []] ex_child1 (Val ex_T0) (Val ex_T100),
      Row (ex_env None) (Some (Num 500)) [''group'', []] ex_child2 (Val ex_T0) (Val ex_T100)] \<and>
   childRows (Row (ex_env None) None [''group''] (ex_group None) (Val ex_T0) (Val ex_T100)) = []"
proof -
  have h: "task_id (ex_group None) = None \<or> task_id (ex_group None) = Some []"
    by (simp add: ex_group_def)
  have c: "children (ex_group None) = Some [ex_child1, ex_child2]"
    "ganttWidth_default None = Num 500"
    by (simp_all add: ex_group_def ganttWidth_default_def)
  from identifierless_group_open [OF h, of "[''group'', []]" "ex_env None" None "Val ex_T0" "Val ex_T100"]
    identifierless_group_open [OF h, of "[''group'']" "ex_env None" None "Val ex_T0" "Val ex_T100"]
    h c
  show ?thesis by simp
qed

end
